theory Spec2Isabelle
  imports Main "HOL-Library.Sublist"
begin

section \<open>Strings and the platform string functions the source calls\<close>

text \<open>
  A JavaScript string is modelled by the list of its UTF-8 bytes (\<open>string\<close>): this is what
  \<open>querystring.escape\<close> percent-encodes byte by byte, what \<open>Buffer.byteLength\<close> counts and
  what \<open>req.write\<close> and \<open>Buffer.from\<close> put on the wire. Strings holding a lone surrogate
  (on which \<open>querystring.escape\<close> throws) have no UTF-8 form and are outside the model.
\<close>

definition byteLength :: "string \<Rightarrow> nat" where
  "byteLength s = length s"

definition hex_upper :: "nat \<Rightarrow> char" where
  "hex_upper n = (''0123456789ABCDEF'' ! (n mod 16))"

definition hex_lower :: "nat \<Rightarrow> char" where
  "hex_lower n = (''0123456789abcdef'' ! (n mod 16))"

definition is_digit :: "char \<Rightarrow> bool" where
  "is_digit c = (48 \<le> (of_char c :: nat) \<and> (of_char c :: nat) \<le> 57)"

definition is_alpha :: "char \<Rightarrow> bool" where
  "is_alpha c = ((65 \<le> (of_char c :: nat) \<and> (of_char c :: nat) \<le> 90) \<or>
                 (97 \<le> (of_char c :: nat) \<and> (of_char c :: nat) \<le> 122))"

text \<open>
  The \<open>noEscape\<close> table of \<open>querystring.escape\<close>: letters, digits and
  \<open>! ' ( ) * - . _ ~\<close> are copied, every other byte becomes \<open>%XX\<close> in upper-case hex.
\<close>

definition noEscape :: "char \<Rightarrow> bool" where
  "noEscape c = (is_alpha c \<or> is_digit c \<or>
     c \<in> set [CHR ''!'', CHR 0x27, CHR ''('', CHR '')'', CHR ''*'', CHR ''-'', CHR ''.'',
                CHR ''_'', CHR ''~''])"

definition escape_byte :: "char \<Rightarrow> string" where
  "escape_byte c = (if noEscape c then [c]
     else [CHR ''%'', hex_upper ((of_char c :: nat) div 16), hex_upper (of_char c :: nat)])"

definition qsEscape :: "string \<Rightarrow> string" where
  "qsEscape s = concat (map escape_byte s)"

text \<open>
  \<open>String.prototype.replace\<close> with a string pattern: the first occurrence only is
  replaced. (The replacement used by the source, \<open>@\<close>, has no \<open>$\<close> pattern.)
\<close>

fun replace_first :: "string \<Rightarrow> string \<Rightarrow> string \<Rightarrow> string" where
  "replace_first pat rep [] = (if pat = [] then rep else [])"
| "replace_first pat rep (c # cs) =
     (if prefix pat (c # cs) then rep @ drop (length pat) (c # cs)
      else c # replace_first pat rep cs)"

text \<open>The number of positions of a string at which a pattern occurs.\<close>

fun occurrences :: "string \<Rightarrow> string \<Rightarrow> nat" where
  "occurrences pat [] = (if pat = [] then 1 else 0)"
| "occurrences pat (c # cs) = (if prefix pat (c # cs) then 1 else 0) + occurrences pat cs"

fun intercalate :: "string \<Rightarrow> string list \<Rightarrow> string" where
  "intercalate sep [] = []"
| "intercalate sep [x] = x"
| "intercalate sep (x # y # ys) = x @ sep @ intercalate sep (y # ys)"

section \<open>Objects\<close>

text \<open>
  An object is the list of its own properties in creation order. Setting a property that
  exists keeps its place; a new one goes to the end. \<open>Object.keys\<close> enumerates the array-index
  keys first, in ascending numeric order, then the other keys in creation order.
  A payload is given as the property list of an object literal, so \<open>object_assign\<close> folds
  \<open>set_prop\<close> over it (a key written twice keeps its first place and its last value).
\<close>

type_synonym 'v js_object = "(string \<times> 'v) list"

definition has_prop :: "'v js_object \<Rightarrow> string \<Rightarrow> bool" where
  "has_prop obj k = (k \<in> set (map fst obj))"

definition set_prop :: "'v js_object \<Rightarrow> string \<Rightarrow> 'v \<Rightarrow> 'v js_object" where
  "set_prop obj k v =
     (if has_prop obj k then map (\<lambda>(k', v'). if k' = k then (k', v) else (k', v')) obj
      else obj @ [(k, v)])"

definition object_assign :: "'v js_object \<Rightarrow> 'v js_object \<Rightarrow> 'v js_object" where
  "object_assign target source = fold (\<lambda>(k, v) obj. set_prop obj k v) source target"

definition get_prop :: "'v js_object \<Rightarrow> string \<Rightarrow> 'v option" where
  "get_prop obj k = map_of obj k"

definition dec_value :: "string \<Rightarrow> nat" where
  "dec_value k = foldl (\<lambda>n c. 10 * n + ((of_char c :: nat) - 48)) 0 k"

definition is_array_index :: "string \<Rightarrow> bool" where
  "is_array_index k = (k \<noteq> [] \<and> list_all is_digit k \<and> (k = ''0'' \<or> hd k \<noteq> CHR ''0'') \<and>
     dec_value k < 4294967295)"

definition own_entries :: "'v js_object \<Rightarrow> 'v js_object" where
  "own_entries obj =
     sort_key (\<lambda>(k, v). dec_value k) (filter (\<lambda>(k, v). is_array_index k) obj) @
     filter (\<lambda>(k, v). \<not> is_array_index k) obj"

section \<open>querystring.stringify\<close>

text \<open>
  The values \<open>querystring.stringify\<close> tells apart: a string; a finite number or bigint, given by
  its decimal rendering \<open>'' + v\<close> (below \<open>1e21\<close> the rendering has only digits, \<open>-\<close>, \<open>.\<close> and
  \<open>e\<close>, which escaping leaves alone; from \<open>1e21\<close> on the source escapes it); a boolean;
  anything else (\<open>undefined\<close>, \<open>null\<close>, \<open>NaN\<close>, an object), which becomes the empty string.
  The payload types declared by the source (\<open>AccessTokenGetParams\<close>,
  \<open>AccessTokenRefreshParams\<close>) have string and number fields only.
\<close>

datatype qs_value = QStr string | QNum string | QBool bool | QOther

fun encodeStringified :: "qs_value \<Rightarrow> string" where
  "encodeStringified (QStr v) = qsEscape v"
| "encodeStringified (QNum r) = qsEscape r"
| "encodeStringified (QBool b) = (if b then ''true'' else ''false'')"
| "encodeStringified QOther = []"

definition qs_field :: "string \<times> qs_value \<Rightarrow> string" where
  "qs_field kv = qsEscape (fst kv) @ ''='' @ encodeStringified (snd kv)"

definition qs_stringify :: "qs_value js_object \<Rightarrow> string" where
  "qs_stringify obj = intercalate ''&'' (map qs_field (own_entries obj))"

section \<open>Requests\<close>

datatype http_method = GET | POST | PUT

text \<open>
  The \<open>authorization\<close> argument the endpoint methods hand to \<open>buildRequestOptions\<close>:
  \<open>{ type: 'Basic' }\<close>, \<open>{ type: 'Bearer', token }\<close>, or none.
\<close>

datatype authorization = NoAuthorization | Basic | Bearer string

datatype header_value = HText string | HNumber nat

record request_intent =
  req_method :: http_method
  req_path :: string
  req_authorization :: authorization
  req_headers :: "header_value js_object"

text \<open>
  What an endpoint method dispatches: the argument of \<open>buildRequestOptions\<close> and the
  body it writes before \<open>req.end()\<close> (\<open>None\<close> when nothing is written).
\<close>

record dispatched =
  intent :: request_intent
  written :: "string option"

section \<open>OAuth2 token requests\<close>

definition requestToken_dataCopy :: "qs_value js_object \<Rightarrow> qs_value js_object" where
  "requestToken_dataCopy data = object_assign [(''grant_type'', QStr ''password'')] data"

definition refreshToken_dataCopy :: "qs_value js_object \<Rightarrow> qs_value js_object" where
  "refreshToken_dataCopy data =
     object_assign (object_assign [] data) [(''grant_type'', QStr ''refresh_token'')]"

definition dataStringified :: "qs_value js_object \<Rightarrow> string" where
  "dataStringified dataCopy = replace_first ''%40'' ''@'' (qs_stringify dataCopy)"

definition token_request :: "string \<Rightarrow> dispatched" where
  "token_request body =
     \<lparr> intent = \<lparr> req_method = POST, req_path = ''/oauth2/token'', req_authorization = Basic,
         req_headers = [(''Content-Type'', HText ''application/x-www-form-urlencoded''),
                        (''Content-Length'', HNumber (byteLength body))] \<rparr>,
       written = Some body \<rparr>"

definition requestToken_request :: "qs_value js_object \<Rightarrow> dispatched" where
  "requestToken_request data = token_request (dataStringified (requestToken_dataCopy data))"

definition refreshToken_request :: "qs_value js_object \<Rightarrow> dispatched" where
  "refreshToken_request data = token_request (dataStringified (refreshToken_dataCopy data))"

section \<open>The shared request helper\<close>

text \<open>
  \<open>buildRequestOptions\<close>, \<open>responseHandler\<close> and \<open>errorHandler\<close> are imported from
  \<open>../common\<close>, which is not among the source files. The definitions of this section follow
  sections 3, 4.1 and 4.2 of the specification.
\<close>

text \<open>
  Modelled from the spec: a service endpoint (host and base path); \<open>../common\<close>, which
  holds the two endpoints, is missing.
\<close>

record endpoint =
  host :: string
  basePath :: string

text \<open>
  Modelled from the spec: the configured client, whose holder \<open>../common\<close> is missing: the
  credentials (base64 of \<open>client_id:client_secret\<close>) and the production flag, both fixed when
  the client is configured, and the two service endpoints.
\<close>

record client_config =
  credentials :: string
  production :: bool
  productionEndpoint :: endpoint
  sandboxEndpoint :: endpoint

text \<open>
  Modelled from the spec: the transport-ready request options \<open>buildRequestOptions\<close> (missing)
  returns.
\<close>

record request_options =
  opt_endpoint :: endpoint
  opt_method :: http_method
  opt_path :: string
  opt_headers :: "header_value js_object"

text \<open>
  Modelled from the spec: the \<open>Authorization\<close> header \<open>buildRequestOptions\<close> (missing)
  computes: \<open>"Basic " + credentials\<close>, \<open>"Bearer " + token\<close>, or none for mode None.
\<close>

fun authorization_header :: "client_config \<Rightarrow> authorization \<Rightarrow> string option" where
  "authorization_header cfg NoAuthorization = None"
| "authorization_header cfg Basic = Some (''Basic '' @ credentials cfg)"
| "authorization_header cfg (Bearer token) = Some (''Bearer '' @ token)"

text \<open>
  Modelled from the spec: \<open>buildRequestOptions\<close> (missing) selects the endpoint by the
  production flag, takes method and path from the intent, and merges the caller's headers
  with the computed \<open>Authorization\<close> header. It sets no other header.
\<close>

definition buildRequestOptions :: "client_config \<Rightarrow> request_intent \<Rightarrow> request_options" where
  "buildRequestOptions cfg i =
     \<lparr> opt_endpoint = (if production cfg then productionEndpoint cfg else sandboxEndpoint cfg),
       opt_method = req_method i,
       opt_path = req_path i,
       opt_headers = (case authorization_header cfg (req_authorization i) of
                        None \<Rightarrow> req_headers i
                      | Some h \<Rightarrow> set_prop (req_headers i) ''Authorization'' (HText h)) \<rparr>"

definition header :: "request_options \<Rightarrow> string \<Rightarrow> header_value option" where
  "header opts name = get_prop (opt_headers opts) name"

text \<open>
  Modelled from the spec: the normalized error the missing handlers build, with the error
  taxonomy of section 7. The status code is absent for a transport-level failure; the
  message is the parsed body or a text.
\<close>

datatype error_kind = TransportError | HttpError | ParseError

datatype 'j error_message = ParsedBody 'j | RawText string

record 'j api_error =
  kind :: error_kind
  statusCode :: "nat option"
  message :: "'j error_message"

text \<open>
  The arguments of one invocation of an error-first callback: \<open>(err, res)\<close>, with \<open>None\<close> for
  \<open>null\<close> or a missing argument.
\<close>

type_synonym 'j callback_args = "'j api_error option \<times> 'j option"

text \<open>Modelled from the spec: the success range (2xx) the missing response handler tests.\<close>

definition is_success :: "nat \<Rightarrow> bool" where
  "is_success status = (200 \<le> status \<and> status < 300)"

text \<open>
  Modelled from the spec: what \<open>responseHandler\<close> (missing) hands to the continuation when
  the response stream ends, from the status code and the accumulated body. The JSON parser
  is a parameter (\<open>None\<close> when the body is malformed); the parsed value is opaque to the
  helper.
\<close>

definition responseHandler_end :: "(string \<Rightarrow> 'j option) \<Rightarrow> nat \<Rightarrow> string \<Rightarrow> 'j callback_args" where
  "responseHandler_end parse status rawData =
     (if is_success status then
        (case parse rawData of
           Some parsed \<Rightarrow> (None, Some parsed)
         | None \<Rightarrow> (Some \<lparr> kind = ParseError, statusCode = Some status,
                             message = RawText rawData \<rparr>, None))
      else
        (Some \<lparr> kind = HttpError, statusCode = Some status,
                 message = (case parse rawData of
                              Some parsed \<Rightarrow> ParsedBody parsed
                            | None \<Rightarrow> RawText rawData) \<rparr>, None))"

text \<open>
  Modelled from the spec: what \<open>errorHandler\<close> (missing) hands to the continuation on a
  transport-level error.
\<close>

definition errorHandler :: "string \<Rightarrow> 'j callback_args" where
  "errorHandler msg =
     (Some \<lparr> kind = TransportError, statusCode = None, message = RawText msg \<rparr>, None)"

text \<open>
  The events the transport signals for one request: the response arrives with its status
  code (the response handler is called), a body chunk arrives, the response stream ends, or
  the request fails with a transport-level error.
\<close>

datatype transport_event = Response nat | Data string | End | Failed string

text \<open>
  Modelled from the spec: the state of the two missing handlers of one request, closed over
  the same continuation: the status of the response under way (if any), the bytes
  accumulated so far, and the invocations of the continuation made so far.
\<close>

record 'j handlers =
  status :: "nat option"
  rawData :: string
  fired :: "'j callback_args list"

definition pending :: "'j handlers" where
  "pending = \<lparr> status = None, rawData = [], fired = [] \<rparr>"

text \<open>
  Modelled from the spec: how the missing handlers react to an event. The response handler
  starts a fresh buffer, appends the chunks in arrival order and, at the end of the stream,
  invokes the continuation; the error handler invokes it on a transport-level error. Chunks
  and the end of a stream count only once a response has arrived. Neither handler keeps a
  flag telling that the continuation was invoked.
\<close>

fun on_event :: "(string \<Rightarrow> 'j option) \<Rightarrow> transport_event \<Rightarrow> 'j handlers \<Rightarrow> 'j handlers" where
  "on_event parse (Response code) h = h\<lparr> status := Some code, rawData := [] \<rparr>"
| "on_event parse (Data chunk) h =
     (case status h of None \<Rightarrow> h | Some code \<Rightarrow> h\<lparr> rawData := rawData h @ chunk \<rparr>)"
| "on_event parse End h =
     (case status h of None \<Rightarrow> h
      | Some code \<Rightarrow> h\<lparr> fired := fired h @ [responseHandler_end parse code (rawData h)] \<rparr>)"
| "on_event parse (Failed msg) h = h\<lparr> fired := fired h @ [errorHandler msg] \<rparr>"

text \<open>
  Modelled from the spec: the invocations of the continuation the missing handlers make
  over the events of one request, in order.
\<close>

definition invocations :: "(string \<Rightarrow> 'j option) \<Rightarrow> transport_event list \<Rightarrow> 'j callback_args list" where
  "invocations parse evs = fired (fold (on_event parse) evs pending)"

text \<open>
  Modelled from the spec: the single-shot life cycle of section 4.2 (pending, then completed
  with success or with an error): a request either fails with a transport-level error
  before any response, or gets one response whose body chunks are followed by the end of
  the stream.
\<close>

fun body_then_end :: "transport_event list \<Rightarrow> bool" where
  "body_then_end [End] = True"
| "body_then_end (Data chunk # evs) = body_then_end evs"
| "body_then_end evs = False"

fun single_shot :: "transport_event list \<Rightarrow> bool" where
  "single_shot [Failed msg] = True"
| "single_shot (Response code # evs) = body_then_end evs"
| "single_shot evs = False"


section \<open>Dispatching a request\<close>

text \<open>
  The world an endpoint method acts on: the requests dispatched so far and the invocations
  of the caller's callback made so far. A callback is a function of its arguments that
  changes the world. The network is a parameter: the events it signals for a request.
  \<open>https.request(buildRequestOptions(...), responseHandler(callback)).on('error',
  errorHandler(callback))\<close> followed by \<open>write\<close> and \<open>end\<close> records the request and runs the
  callback on every invocation the two handlers make.
\<close>

record 'j world =
  sent :: "dispatched list"
  called :: "'j callback_args list"

type_synonym 'j callback = "'j callback_args \<Rightarrow> 'j world \<Rightarrow> 'j world"

definition https_request ::
  "(dispatched \<Rightarrow> transport_event list) \<Rightarrow> (string \<Rightarrow> 'j option) \<Rightarrow> dispatched \<Rightarrow>
   'j callback \<Rightarrow> 'j world \<Rightarrow> 'j world" where
  "https_request net parse d callback w =
     fold callback (invocations parse (net d)) (w\<lparr> sent := sent w @ [d] \<rparr>)"

text \<open>The caller's callback, as the world sees it: the invocation is recorded.\<close>

definition record_call :: "'j callback" where
  "record_call args w = w\<lparr> called := called w @ [args] \<rparr>"

definition idle :: "'j world" where
  "idle = \<lparr> sent = [], called = [] \<rparr>"

text \<open>
  What a dispatched request carries on the wire, through the built options: its
  \<open>Authorization\<close> header, and whether it has a body announced by \<open>Content-Type\<close> and by a
  \<open>Content-Length\<close> equal to the number of bytes of the body, set by the caller in the
  intent and still there in the built options.
\<close>

definition authorization_sent :: "client_config \<Rightarrow> dispatched \<Rightarrow> header_value option" where
  "authorization_sent cfg d = header (buildRequestOptions cfg (intent d)) ''Authorization''"

definition carries_body :: "client_config \<Rightarrow> dispatched \<Rightarrow> string \<Rightarrow> bool" where
  "carries_body cfg d ctype =
     (case written d of
        None \<Rightarrow> False
      | Some body \<Rightarrow>
          get_prop (req_headers (intent d)) ''Content-Type'' = Some (HText ctype) \<and>
          get_prop (req_headers (intent d)) ''Content-Length'' = Some (HNumber (length body)) \<and>
          header (buildRequestOptions cfg (intent d)) ''Content-Type'' = Some (HText ctype) \<and>
          header (buildRequestOptions cfg (intent d)) ''Content-Length'' =
            Some (HNumber (length body)))"

section \<open>OAuth2 methods\<close>

definition requestToken ::
  "(dispatched \<Rightarrow> transport_event list) \<Rightarrow> (string \<Rightarrow> 'j option) \<Rightarrow> qs_value js_object \<Rightarrow>
   'j callback \<Rightarrow> 'j world \<Rightarrow> 'j world" where
  "requestToken net parse data callback = https_request net parse (requestToken_request data) callback"

definition refreshToken ::
  "(dispatched \<Rightarrow> transport_event list) \<Rightarrow> (string \<Rightarrow> 'j option) \<Rightarrow> qs_value js_object \<Rightarrow>
   'j callback \<Rightarrow> 'j world \<Rightarrow> 'j world" where
  "refreshToken net parse data callback = https_request net parse (refreshToken_request data) callback"

definition verify_request :: "string \<Rightarrow> dispatched" where
  "verify_request token =
     \<lparr> intent = \<lparr> req_method = GET, req_path = ''/oauth2/token'',
         req_authorization = Bearer token, req_headers = [] \<rparr>,
       written = None \<rparr>"

definition verify ::
  "(dispatched \<Rightarrow> transport_event list) \<Rightarrow> (string \<Rightarrow> 'j option) \<Rightarrow> string \<Rightarrow>
   'j callback \<Rightarrow> 'j world \<Rightarrow> 'j world" where
  "verify net parse token callback = https_request net parse (verify_request token) callback"

section \<open>JSON.stringify on the payloads the user methods build\<close>

text \<open>
  \<open>JSON.stringify\<close> of a string quotes it: the quote and the backslash get a backslash, the
  control bytes below \<open>0x20\<close> become \<open>\b \t \n \f \r\<close> or \<open>\u00xx\<close> (lower-case hex), every
  other byte is copied. A property whose value is \<open>undefined\<close> (\<open>None\<close>) is left out.
\<close>

definition json_escape_byte :: "char \<Rightarrow> string" where
  "json_escape_byte c =
     (if c = CHR 0x22 then [CHR 0x5C, CHR 0x22]
      else if c = CHR 0x5C then [CHR 0x5C, CHR 0x5C]
      else if c = CHR 0x08 then [CHR 0x5C, CHR ''b'']
      else if c = CHR 0x09 then [CHR 0x5C, CHR ''t'']
      else if c = CHR 0x0A then [CHR 0x5C, CHR ''n'']
      else if c = CHR 0x0C then [CHR 0x5C, CHR ''f'']
      else if c = CHR 0x0D then [CHR 0x5C, CHR ''r'']
      else if (of_char c :: nat) < 32 then
        [CHR 0x5C, CHR ''u'', CHR ''0'', CHR ''0'', hex_lower ((of_char c :: nat) div 16),
         hex_lower (of_char c :: nat)]
      else [c])"

definition JSON_string :: "string \<Rightarrow> string" where
  "JSON_string s = [CHR 0x22] @ concat (map json_escape_byte s) @ [CHR 0x22]"

definition digit_char :: "nat \<Rightarrow> char" where
  "digit_char n = (''0123456789'' ! (n mod 10))"

function show_nat :: "nat \<Rightarrow> string" where
  "show_nat n = (if n < 10 then [digit_char n]
                 else show_nat (n div 10) @ [digit_char n])"
  by pat_completeness auto
termination
  by (relation "measure id") auto

declare show_nat.simps [simp del]

datatype json_value = JString string | JNumber nat

fun JSON_value :: "json_value \<Rightarrow> string" where
  "JSON_value (JString s) = JSON_string s"
| "JSON_value (JNumber n) = show_nat n"

definition JSON_member :: "string \<times> json_value option \<Rightarrow> string list" where
  "JSON_member kv = (case snd kv of None \<Rightarrow> []
                     | Some v \<Rightarrow> [JSON_string (fst kv) @ '':'' @ JSON_value v])"

definition JSON_stringify :: "(string \<times> json_value option) list \<Rightarrow> string" where
  "JSON_stringify props = ''{'' @ intercalate '','' (concat (map JSON_member props)) @ ''}''"

section \<open>User methods\<close>

record create_options =
  verifyEmail :: bool
  startTrial :: bool

text \<open>
  The payload of \<open>User.create\<close> after destructuring: a field the caller left out is
  \<open>None\<close>; the two options have their defaults (\<open>False\<close>) filled in.
\<close>

record user_create_params =
  email :: "string option"
  password :: "string option"
  first_name :: "string option"
  last_name :: "string option"
  number :: "string option"
  options :: create_options

definition json_request :: "http_method \<Rightarrow> string \<Rightarrow> authorization \<Rightarrow> string \<Rightarrow> dispatched" where
  "json_request m p a JSONData =
     \<lparr> intent = \<lparr> req_method = m, req_path = p, req_authorization = a,
         req_headers = [(''Content-Type'', HText ''application/json''),
                        (''Content-Length'', HNumber (byteLength JSONData))] \<rparr>,
       written = Some JSONData \<rparr>"

definition create_JSONData :: "user_create_params \<Rightarrow> string" where
  "create_JSONData p = JSON_stringify
     [(''skip_30day_trial'', Some (JNumber (if startTrial (options p) then 0 else 1))),
      (''email'', map_option JString (email p)),
      (''password'', map_option JString (password p)),
      (''first_name'', map_option JString (first_name p)),
      (''last_name'', map_option JString (last_name p)),
      (''number'', map_option JString (number p))]"

definition create_request :: "user_create_params \<Rightarrow> dispatched" where
  "create_request p = json_request POST ''/user'' Basic (create_JSONData p)"

definition verifyEmail_request :: "string option \<Rightarrow> dispatched" where
  "verifyEmail_request e =
     json_request POST ''/user/verifyemail'' Basic
       (JSON_stringify [(''email'', map_option JString e)])"

definition retrieve_request :: "string \<Rightarrow> dispatched" where
  "retrieve_request token =
     \<lparr> intent = \<lparr> req_method = GET, req_path = ''/user'',
         req_authorization = Bearer token, req_headers = [] \<rparr>,
       written = None \<rparr>"

definition deactivateReusableSignatures_request :: "string \<Rightarrow> dispatched" where
  "deactivateReusableSignatures_request token =
     json_request PUT ''/user/setting/no_user_signature_return'' (Bearer token)
       (JSON_stringify [(''active'', Some (JNumber 1))])"

definition User_verifyEmail ::
  "(dispatched \<Rightarrow> transport_event list) \<Rightarrow> (string \<Rightarrow> 'j option) \<Rightarrow> string option \<Rightarrow>
   'j callback \<Rightarrow> 'j world \<Rightarrow> 'j world" where
  "User_verifyEmail net parse e callback = https_request net parse (verifyEmail_request e) callback"

definition User_retrieve ::
  "(dispatched \<Rightarrow> transport_event list) \<Rightarrow> (string \<Rightarrow> 'j option) \<Rightarrow> string \<Rightarrow>
   'j callback \<Rightarrow> 'j world \<Rightarrow> 'j world" where
  "User_retrieve net parse token callback = https_request net parse (retrieve_request token) callback"

definition User_deactivateReusableSignatures ::
  "(dispatched \<Rightarrow> transport_event list) \<Rightarrow> (string \<Rightarrow> 'j option) \<Rightarrow> string \<Rightarrow>
   'j callback \<Rightarrow> 'j world \<Rightarrow> 'j world" where
  "User_deactivateReusableSignatures net parse token callback =
     https_request net parse (deactivateReusableSignatures_request token) callback"

text \<open>
  The callback \<open>User.create\<close> installs when \<open>verifyEmail\<close> is set. An error is truthy, \<open>null\<close> is
  not; \<open>originalCallback(err)\<close> passes no second argument.
\<close>

definition callbackWithEmailVerification ::
  "(dispatched \<Rightarrow> transport_event list) \<Rightarrow> (string \<Rightarrow> 'j option) \<Rightarrow> string option \<Rightarrow>
   'j callback \<Rightarrow> 'j callback" where
  "callbackWithEmailVerification net parse e originalCallback =
     (\<lambda>(createErr, createRes) w.
        case createErr of
          Some err \<Rightarrow> originalCallback (Some err, None) w
        | None \<Rightarrow>
            User_verifyEmail net parse e
              (\<lambda>(verifyErr, verifyRes) w'.
                 case verifyErr of
                   Some err \<Rightarrow> originalCallback (Some err, None) w'
                 | None \<Rightarrow> originalCallback (None, createRes) w') w)"

definition User_create ::
  "(dispatched \<Rightarrow> transport_event list) \<Rightarrow> (string \<Rightarrow> 'j option) \<Rightarrow> user_create_params \<Rightarrow>
   'j callback \<Rightarrow> 'j world \<Rightarrow> 'j world" where
  "User_create net parse p originalCallback =
     (let callback = (if verifyEmail (options p)
                      then callbackWithEmailVerification net parse (email p) originalCallback
                      else originalCallback)
      in https_request net parse (create_request p) callback)"

section \<open>The remove-document command line\<close>

text \<open>
  \<open>Buffer.from(s).toString('base64')\<close>: the standard alphabet, three bytes to four
  characters, padded with \<open>=\<close>.
\<close>

definition b64_char :: "nat \<Rightarrow> char" where
  "b64_char n =
     (''ABCDEFGHIJKLMNOPQRSTUVWXYZabcdefghijklmnopqrstuvwxyz0123456789+/'' ! (n mod 64))"

fun base64 :: "string \<Rightarrow> string" where
  "base64 [] = []"
| "base64 [a] =
     [b64_char ((of_char a :: nat) div 4), b64_char (((of_char a :: nat) mod 4) * 16),
      CHR ''='', CHR ''='']"
| "base64 [a, b] =
     [b64_char ((of_char a :: nat) div 4),
      b64_char (((of_char a :: nat) mod 4) * 16 + (of_char b :: nat) div 16),
      b64_char (((of_char b :: nat) mod 16) * 4), CHR ''='']"
| "base64 (a # b # c # rest) =
     [b64_char ((of_char a :: nat) div 4),
      b64_char (((of_char a :: nat) mod 4) * 16 + (of_char b :: nat) div 16),
      b64_char (((of_char b :: nat) mod 16) * 4 + (of_char c :: nat) div 64),
      b64_char ((of_char c :: nat) mod 64)] @ base64 rest"

text \<open>\<open>/^--/.test(arg)\<close>\<close>

definition is_flag :: "string \<Rightarrow> bool" where
  "is_flag arg = prefix ''--'' arg"

definition flags :: "string list \<Rightarrow> string list" where
  "flags args = filter is_flag args"

definition params :: "string list \<Rightarrow> string list" where
  "params args = filter (\<lambda>arg. \<not> is_flag arg) args"

text \<open>Array destructuring: a position past the end gives \<open>undefined\<close>.\<close>

definition element :: "'a list \<Rightarrow> nat \<Rightarrow> 'a option" where
  "element xs i = (if i < length xs then Some (xs ! i) else None)"

text \<open>A value inside a template literal: \<open>undefined\<close> prints as the word.\<close>

definition template :: "string option \<Rightarrow> string" where
  "template v = (case v of None \<Rightarrow> ''undefined'' | Some s \<Rightarrow> s)"

record cli =
  clientId :: "string option"
  clientSecret :: "string option"
  username :: "string option"
  cli_password :: "string option"
  documentId :: "string option"
  cancelInvites :: bool
  dev :: bool

definition parse_args :: "string list \<Rightarrow> cli" where
  "parse_args args =
     \<lparr> clientId = element (params args) 0,
       clientSecret = element (params args) 1,
       username = element (params args) 2,
       cli_password = element (params args) 3,
       documentId = element (params args) 4,
       cancelInvites = (''--cancel-invites'' \<in> set (flags args)),
       dev = (''--dev'' \<in> set (flags args)) \<rparr>"

text \<open>The configuration object the script hands to \<open>require('../lib')\<close>.\<close>

record api_settings =
  set_credentials :: string
  set_production :: bool

definition cli_settings :: "string list \<Rightarrow> api_settings" where
  "cli_settings args =
     (let c = parse_args args in
      \<lparr> set_credentials = base64 (template (clientId c) @ '':'' @ template (clientSecret c)),
        set_production = (\<not> dev c) \<rparr>)"

section \<open>Properties of objects\<close>

lemma map_of_update_all:
  "map_of (map (\<lambda>(k', v'). if k' = k then (k', v) else (k', v')) obj) k' =
     (if k' = k then (if k \<in> fst ` set obj then Some v else None) else map_of obj k')"
  by (induction obj) (auto simp: rev_image_eqI)

lemma map_of_set_prop:
  "map_of (set_prop obj k v) k' = (if k' = k then Some v else map_of obj k')"
proof (cases "has_prop obj k")
  case True
  then show ?thesis by (simp add: set_prop_def has_prop_def map_of_update_all)
next
  case False
  then have "k \<notin> fst ` set obj" by (simp add: has_prop_def)
  then have "map_of obj k = None" by (simp add: map_of_eq_None_iff)
  with False show ?thesis by (auto simp: set_prop_def map_add_def split: option.splits)
qed

lemma get_prop_set_prop:
  "get_prop (set_prop obj k v) k' = (if k' = k then Some v else get_prop obj k')"
  by (simp add: get_prop_def map_of_set_prop)

lemma keys_set_prop:
  "map fst (set_prop obj k v) = (if has_prop obj k then map fst obj else map fst obj @ [k])"
  by (auto simp: set_prop_def split: prod.splits)

lemma distinct_set_prop:
  "distinct (map fst obj) \<Longrightarrow> distinct (map fst (set_prop obj k v))"
  by (simp add: keys_set_prop has_prop_def)

lemma get_prop_object_assign:
  "get_prop (object_assign target source) k =
     (case map_of (rev source) k of Some v \<Rightarrow> Some v | None \<Rightarrow> get_prop target k)"
  unfolding object_assign_def
proof (induction source arbitrary: target)
  case Nil
  show ?case by simp
next
  case (Cons kv source)
  obtain k0 v0 where kv: "kv = (k0, v0)" by (cases kv)
  show ?case
    by (simp add: kv Cons.IH get_prop_set_prop map_add_def split: option.splits)
qed

lemma distinct_object_assign:
  "distinct (map fst target) \<Longrightarrow> distinct (map fst (object_assign target source))"
  unfolding object_assign_def
  by (induction source arbitrary: target) (auto simp: distinct_set_prop)

lemma filter_key_distinct:
  "distinct (map fst obj) \<Longrightarrow> map_of obj k = Some v \<Longrightarrow> filter (\<lambda>kv. fst kv = k) obj = [(k, v)]"
proof (induction obj)
  case Nil
  then show ?case by simp
next
  case (Cons a obj)
  show ?case
  proof (cases "fst a = k")
    case True
    with Cons.prems have "a = (k, v)" by (cases a) auto
    moreover from Cons.prems True have "k \<notin> fst ` set obj" by auto
    then have "filter (\<lambda>kv. fst kv = k) obj = []" by (auto simp: filter_empty_conv)
    ultimately show ?thesis by simp
  next
    case False
    with Cons show ?thesis by (cases a) auto
  qed
qed

lemma filter_key_own_entries:
  "\<not> is_array_index k \<Longrightarrow>
   filter (\<lambda>kv. fst kv = k) (own_entries obj) = filter (\<lambda>kv. fst kv = k) obj"
proof -
  assume k: "\<not> is_array_index k"
  have "filter (\<lambda>kv. fst kv = k) (filter (\<lambda>(k, v). is_array_index k) obj) = []"
    using k by (auto simp: filter_empty_conv)
  moreover have "filter (\<lambda>kv. fst kv = k) (filter (\<lambda>(k, v). \<not> is_array_index k) obj) =
     filter (\<lambda>kv. fst kv = k) obj"
    using k by (induction obj) auto
  ultimately show ?thesis
    by (simp add: own_entries_def filter_sort)
qed

lemma grant_type_not_index: "\<not> is_array_index ''grant_type''"
  by (simp add: is_array_index_def is_digit_def)

section \<open>Properties of the string functions\<close>

lemma replace_first_miss:
  "\<not> prefix pat (c # cs) \<Longrightarrow> replace_first pat rep (c # cs) = c # replace_first pat rep cs"
  by simp

lemma replace_first_hit:
  "prefix pat (c # cs) \<Longrightarrow> replace_first pat rep (c # cs) = rep @ drop (length pat) (c # cs)"
  by simp

lemma occurrences_miss:
  "\<not> prefix pat (c # cs) \<Longrightarrow> occurrences pat (c # cs) = occurrences pat cs"
  by simp

lemma occurrences_hit:
  "prefix pat (c # cs) \<Longrightarrow> occurrences pat (c # cs) = Suc (occurrences pat cs)"
  by simp

lemma replace_first_split:
  "0 < occurrences pat s \<Longrightarrow> pat \<noteq> [] \<Longrightarrow>
   \<exists>pre rest. s = pre @ pat @ rest \<and> occurrences pat pre = 0 \<and>
     replace_first pat rep s = pre @ rep @ rest \<and>
     occurrences pat s = occurrences pat (pat @ rest)"
proof (induction s)
  case Nil
  then show ?case by simp
next
  case (Cons c cs)
  show ?case
  proof (cases "prefix pat (c # cs)")
    case True
    then obtain rest where r: "c # cs = pat @ rest" by (auto simp: prefix_def)
    have "replace_first pat rep (c # cs) = rep @ rest"
      using replace_first_hit [OF True, of rep] r by simp
    with r Cons.prems(2) have "c # cs = [] @ pat @ rest \<and> occurrences pat [] = 0 \<and>
      replace_first pat rep (c # cs) = [] @ rep @ rest \<and>
      occurrences pat (c # cs) = occurrences pat (pat @ rest)"
      by simp
    then show ?thesis by blast
  next
    case False
    have oc: "occurrences pat (c # cs) = occurrences pat cs" by (rule occurrences_miss [OF False])
    with Cons.prems have "0 < occurrences pat cs" by (simp only:)
    with Cons.IH Cons.prems(2) obtain pre rest where
      s: "cs = pre @ pat @ rest" and z: "occurrences pat pre = 0" and
      r: "replace_first pat rep cs = pre @ rep @ rest" and
      n: "occurrences pat cs = occurrences pat (pat @ rest)"
      by blast
    have m: "\<not> prefix pat (c # pre)"
    proof
      assume "prefix pat (c # pre)"
      then have "prefix pat ((c # pre) @ pat @ rest)" by (rule prefix_prefix)
      with s False show False by simp
    qed
    have "c # cs = (c # pre) @ pat @ rest" using s by simp
    moreover have "occurrences pat (c # pre) = 0"
      using z by (simp only: occurrences_miss [OF m])
    moreover have "replace_first pat rep (c # cs) = (c # pre) @ rep @ rest"
      using r by (simp only: replace_first_miss [OF False] append_Cons)
    moreover have "occurrences pat (c # cs) = occurrences pat (pat @ rest)"
      using n by (simp only: oc)
    ultimately show ?thesis by blast
  qed
qed

lemma occurrences_after_first:
  "occurrences ''%40'' (''%40'' @ rest) = Suc (occurrences ''%40'' rest)"
  by simp

lemma restored_no_new_prefix:
  assumes p: "prefix ''40'' (replace_first ''%40'' ''@'' cs)"
  shows "prefix ''40'' cs"
proof (cases cs)
  case Nil
  with p show ?thesis by simp
next
  case (Cons a as)
  note outer = Cons
  show ?thesis
  proof (cases as)
    case Nil
    with outer p show ?thesis by (simp split: if_splits)
  next
    case (Cons b bs)
    with outer p show ?thesis by (auto split: if_splits)
  qed
qed

lemma occurrences_replace_first:
  "occurrences ''%40'' (replace_first ''%40'' ''@'' s) = occurrences ''%40'' s - 1"
proof (induction s)
  case Nil
  show ?case by simp
next
  case (Cons c cs)
  show ?case
  proof (cases "prefix ''%40'' (c # cs)")
    case True
    then obtain rest where "c # cs = ''%40'' @ rest" by (auto simp: prefix_def)
    then show ?thesis by simp
  next
    case False
    have m: "\<not> prefix ''%40'' (c # replace_first ''%40'' ''@'' cs)"
    proof
      assume "prefix ''%40'' (c # replace_first ''%40'' ''@'' cs)"
      then have "c = CHR ''%''" and "prefix ''40'' (replace_first ''%40'' ''@'' cs)" by auto
      then have "prefix ''%40'' (c # cs)" using restored_no_new_prefix [of cs] by simp
      with False show False ..
    qed
    have "occurrences ''%40'' (replace_first ''%40'' ''@'' (c # cs)) =
          occurrences ''%40'' (c # replace_first ''%40'' ''@'' cs)"
      by (simp only: replace_first_miss [OF False])
    also have "\<dots> = occurrences ''%40'' (replace_first ''%40'' ''@'' cs)"
      by (rule occurrences_miss [OF m])
    also have "\<dots> = occurrences ''%40'' cs - 1" by (rule Cons.IH)
    also have "\<dots> = occurrences ''%40'' (c # cs) - 1"
      by (simp only: occurrences_miss [OF False])
    finally show ?thesis .
  qed
qed

lemma replace_first_none:
  "occurrences pat s = 0 \<Longrightarrow> pat \<noteq> [] \<Longrightarrow> replace_first pat rep s = s"
  by (induction s) (auto split: if_splits)

section \<open>Properties of the handlers\<close>

lemma fold_Data:
  "status h = Some code \<Longrightarrow>
   fold (on_event parse) (map Data chunks) h = h\<lparr> rawData := rawData h @ concat chunks \<rparr>"
  by (induction chunks arbitrary: h) auto

lemma invocations_response:
  "invocations parse (Response code # map Data chunks @ [End]) =
     [responseHandler_end parse code (concat chunks)]"
  by (simp add: invocations_def pending_def fold_Data)

lemma invocations_failed:
  "invocations parse [Failed msg] = [errorHandler msg]"
  by (simp add: invocations_def pending_def)

lemma body_then_end_chunks:
  "body_then_end evs \<Longrightarrow> \<exists>chunks. evs = map Data chunks @ [End]"
proof (induction evs rule: body_then_end.induct)
  case 1
  have "[End] = map Data [] @ [End]" by simp
  then show ?case by blast
next
  case (2 chunk evs)
  then obtain chunks where "evs = map Data chunks @ [End]" by auto
  then have "Data chunk # evs = map Data (chunk # chunks) @ [End]" by simp
  then show ?case by blast
qed simp_all

lemma single_shot_cases:
  "single_shot evs \<Longrightarrow>
   (\<exists>msg. evs = [Failed msg]) \<or> (\<exists>code chunks. evs = Response code # map Data chunks @ [End])"
  by (induction evs rule: single_shot.induct) (auto dest: body_then_end_chunks)

lemma single_shot_invocations:
  "single_shot evs \<Longrightarrow> \<exists>a. invocations parse evs = [a]"
  by (auto dest!: single_shot_cases simp: invocations_response invocations_failed)



lemma https_request_record_call:
  "https_request net parse d record_call w =
     \<lparr> sent = sent w @ [d], called = called w @ invocations parse (net d) \<rparr>"
proof -
  have "fold record_call xs w' = w'\<lparr> called := called w' @ xs \<rparr>" for xs and w' :: "'a world"
    by (induction xs arbitrary: w') (simp_all add: record_call_def)
  then show ?thesis by (simp add: https_request_def)
qed

lemma https_request_single:
  "invocations parse (net d) = [a] \<Longrightarrow>
   https_request net parse d callback w = callback a (w\<lparr> sent := sent w @ [d] \<rparr>)"
  by (simp add: https_request_def)

section \<open>Evaluation and the built headers\<close>

lemmas qs_eval =
  requestToken_request_def refreshToken_request_def token_request_def dataStringified_def
  requestToken_dataCopy_def refreshToken_dataCopy_def object_assign_def set_prop_def has_prop_def
  qs_stringify_def own_entries_def is_array_index_def is_digit_def qs_field_def qsEscape_def
  escape_byte_def noEscape_def is_alpha_def hex_upper_def dec_value_def byteLength_def

lemma header_buildRequestOptions:
  "header (buildRequestOptions cfg i) name =
     (case authorization_header cfg (req_authorization i) of
        None \<Rightarrow> get_prop (req_headers i) name
      | Some h \<Rightarrow> if name = ''Authorization'' then Some (HText h)
                  else get_prop (req_headers i) name)"
  by (simp add: header_def buildRequestOptions_def get_prop_set_prop split: option.splits)

lemma get_prop_Nil: "get_prop [] k = None"
  by (simp add: get_prop_def)

lemma get_prop_Cons: "get_prop ((k', v) # obj) k = (if k = k' then Some v else get_prop obj k)"
  by (simp add: get_prop_def)

lemmas request_defs =
  requestToken_request_def refreshToken_request_def token_request_def create_request_def
  verifyEmail_request_def verify_request_def retrieve_request_def
  deactivateReusableSignatures_request_def json_request_def

section \<open>Properties of User.create\<close>

lemma fold_verify_callback:
  "fold (\<lambda>(verifyErr, verifyRes) w'.
           case verifyErr of Some err \<Rightarrow> record_call (Some err, None) w'
           | None \<Rightarrow> record_call (None, createRes) w') ys w =
     w\<lparr> called := called w @
          map (\<lambda>(verifyErr, verifyRes).
                 case verifyErr of Some err \<Rightarrow> (Some err, None) | None \<Rightarrow> (None, createRes)) ys \<rparr>"
  by (induction ys arbitrary: w) (auto simp: record_call_def split: option.splits)

lemma callbackWithEmailVerification_record_call:
  "callbackWithEmailVerification net parse e record_call (createErr, createRes) w =
     (case createErr of
        Some err \<Rightarrow> w\<lparr> called := called w @ [(Some err, None)] \<rparr>
      | None \<Rightarrow>
          \<lparr> sent = sent w @ [verifyEmail_request e],
            called = called w @
              map (\<lambda>(verifyErr, verifyRes).
                     case verifyErr of Some err \<Rightarrow> (Some err, None) | None \<Rightarrow> (None, createRes))
                (invocations parse (net (verifyEmail_request e))) \<rparr>)"
  by (simp add: callbackWithEmailVerification_def User_verifyEmail_def https_request_def
      fold_verify_callback record_call_def split: option.splits)

lemma sent_fold_callbackWithEmailVerification:
  "list_all P (sent w) \<Longrightarrow> P (verifyEmail_request e) \<Longrightarrow>
   list_all P (sent (fold (callbackWithEmailVerification net parse e record_call) xs w))"
proof (induction xs arbitrary: w)
  case Nil
  then show ?case by simp
next
  case (Cons x xs)
  obtain createErr createRes where x: "x = (createErr, createRes)" by (cases x)
  have "list_all P (sent (callbackWithEmailVerification net parse e record_call x w))"
    using Cons.prems
    by (simp add: x callbackWithEmailVerification_record_call split: option.splits)
  with Cons.IH Cons.prems(2) show ?case by simp
qed

lemma sent_User_create:
  "P (create_request p) \<Longrightarrow> P (verifyEmail_request (email p)) \<Longrightarrow>
   list_all P (sent (User_create net parse p record_call idle))"
proof (cases "verifyEmail (options p)")
  case True
  assume "P (create_request p)" and "P (verifyEmail_request (email p))"
  then show ?thesis
    using True
    by (simp add: User_create_def https_request_def idle_def
        sent_fold_callbackWithEmailVerification)
next
  case False
  assume "P (create_request p)"
  with False show ?thesis
    by (simp add: User_create_def https_request_record_call idle_def)
qed

lemma User_create_verifying:
  "verifyEmail (options p) \<Longrightarrow> invocations parse (net (create_request p)) = [(createErr, createRes)] \<Longrightarrow>
   User_create net parse p record_call w =
     (case createErr of
        Some err \<Rightarrow> \<lparr> sent = sent w @ [create_request p], called = called w @ [(Some err, None)] \<rparr>
      | None \<Rightarrow>
          \<lparr> sent = sent w @ [create_request p, verifyEmail_request (email p)],
            called = called w @
              map (\<lambda>(verifyErr, verifyRes).
                     case verifyErr of Some err \<Rightarrow> (Some err, None) | None \<Rightarrow> (None, createRes))
                (invocations parse (net (verifyEmail_request (email p)))) \<rparr>)"
  by (simp add: User_create_def https_request_single callbackWithEmailVerification_record_call
      split: option.splits)


lemma sent_fold_verifying:
  "sent (fold (callbackWithEmailVerification net parse e record_call) xs w) =
     sent w @ replicate (length (filter (\<lambda>a. fst a = None) xs)) (verifyEmail_request e)"
proof (induction xs arbitrary: w)
  case Nil
  show ?case by simp
next
  case (Cons x xs)
  obtain createErr createRes where x: "x = (createErr, createRes)" by (cases x)
  show ?case
    by (cases createErr)
      (simp_all add: x Cons.IH callbackWithEmailVerification_record_call replicate_app_Cons_same)
qed

lemma sent_User_create_exact:
  "sent (User_create net parse p record_call w) =
     sent w @ create_request p #
       (if verifyEmail (options p)
        then replicate
               (length (filter (\<lambda>a. fst a = None) (invocations parse (net (create_request p)))))
               (verifyEmail_request (email p))
        else [])"
proof (cases "verifyEmail (options p)")
  case True
  then show ?thesis
    by (simp add: User_create_def https_request_def sent_fold_verifying)
next
  case False
  then show ?thesis
    by (simp add: User_create_def https_request_record_call)
qed

section \<open>The properties the specification states\<close>

text \<open>
  C1 (amended). For the payload \<open>{username: "u@x.com", password: "p"}\<close> with no grant type,
  \<open>requestToken\<close> dispatches \<open>POST /oauth2/token\<close> with Basic authorization, and the form body
  it writes is \<open>grant_type=password&username=u@x.com&password=p\<close>: \<open>querystring.stringify\<close>
  gives \<open>grant_type=password&username=u%40x.com&password=p\<close>, and the source then replaces
  the first \<open>%40\<close> by \<open>@\<close> before computing the length (47) and writing the body.
\<close>

theorem requestToken_scenario:
  "requestToken_request [(''username'', QStr ''u@x.com''), (''password'', QStr ''p'')] =
     \<lparr> intent = \<lparr> req_method = POST, req_path = ''/oauth2/token'', req_authorization = Basic,
         req_headers = [(''Content-Type'', HText ''application/x-www-form-urlencoded''),
                        (''Content-Length'', HNumber 47)] \<rparr>,
       written = Some ''grant_type=password&username=u@x.com&password=p'' \<rparr> \<and>
   qs_stringify (requestToken_dataCopy [(''username'', QStr ''u@x.com''), (''password'', QStr ''p'')])
     = ''grant_type=password&username=u%40x.com&password=p'' \<and>
   header (buildRequestOptions cfg
       (intent (requestToken_request [(''username'', QStr ''u@x.com''), (''password'', QStr ''p'')])))
     ''Authorization'' = Some (HText (''Basic '' @ credentials cfg))"
proof -
  have "requestToken_request [(''username'', QStr ''u@x.com''), (''password'', QStr ''p'')] =
     \<lparr> intent = \<lparr> req_method = POST, req_path = ''/oauth2/token'', req_authorization = Basic,
         req_headers = [(''Content-Type'', HText ''application/x-www-form-urlencoded''),
                        (''Content-Length'', HNumber 47)] \<rparr>,
       written = Some ''grant_type=password&username=u@x.com&password=p'' \<rparr>"
    by (simp add: qs_eval)
  moreover have
    "qs_stringify (requestToken_dataCopy [(''username'', QStr ''u@x.com''), (''password'', QStr ''p'')])
     = ''grant_type=password&username=u%40x.com&password=p''"
    by (simp add: qs_eval)
  moreover have "header (buildRequestOptions cfg (intent (requestToken_request data)))
     ''Authorization'' = Some (HText (''Basic '' @ credentials cfg))" for data
    by (simp add: header_buildRequestOptions requestToken_request_def token_request_def)
  ultimately show ?thesis by blast
qed

text \<open>
  The string with \<open>%40\<close> still in it, which the specification gives as the body of this
  scenario, is not the body that is written.
\<close>

theorem requestToken_scenario_counterexample:
  "written (requestToken_request [(''username'', QStr ''u@x.com''), (''password'', QStr ''p'')])
     \<noteq> Some ''grant_type=password&username=u%40x.com&password=p''"
  by (simp add: qs_eval)




text \<open>
  C3. The response normalizer by cases: a 2xx status whose accumulated body parses gives
  \<open>(null, parsedBody)\<close>; a status outside 2xx gives an error with the status code and, as
  message, the parsed body when it parses and the raw text otherwise; a transport-level
  error gives an error with no status code and the transport's message.
\<close>

theorem response_normalizer_cases:
  "(is_success code \<and> parse (concat chunks) = Some parsed \<longrightarrow>
      invocations parse (Response code # map Data chunks @ [End]) = [(None, Some parsed)]) \<and>
   (\<not> is_success code \<longrightarrow>
      invocations parse (Response code # map Data chunks @ [End]) =
        [(Some \<lparr> kind = HttpError, statusCode = Some code,
                  message = (case parse (concat chunks) of
                               Some body \<Rightarrow> ParsedBody body
                             | None \<Rightarrow> RawText (concat chunks)) \<rparr>, None)]) \<and>
   invocations parse [Failed msg] =
     [(Some \<lparr> kind = TransportError, statusCode = None, message = RawText msg \<rparr>, None)] \<and>
   is_success code = (200 \<le> code \<and> code \<le> 299)"
  by (auto simp: invocations_response invocations_failed responseHandler_end_def errorHandler_def
      is_success_def)

theorem response_normalizer_cases_witness:
  "is_success 200 \<and> \<not> is_success 404 \<and>
   invocations (\<lambda>s. if s = ''{}'' then Some s else None) [Response 200, Data ''{'', Data ''}'', End]
     = [(None, Some ''{}'')] \<and>
   invocations (\<lambda>s. if s = ''{}'' then Some s else None) [Response 404, Data ''{'', Data ''}'', End]
     = [(Some \<lparr> kind = HttpError, statusCode = Some 404, message = ParsedBody ''{}'' \<rparr>, None)] \<and>
   invocations (\<lambda>s. if s = ''{}'' then Some s else None) [Response 404, Data ''Not Found'', End]
     = [(Some \<lparr> kind = HttpError, statusCode = Some 404, message = RawText ''Not Found'' \<rparr>,
         None)]"
  using response_normalizer_cases
    [where code = 200 and parse = "\<lambda>s. if s = ''{}'' then Some s else None"
       and chunks = "[''{'', ''}'']" and parsed = "''{}''"]
    response_normalizer_cases
    [where code = 404 and parse = "\<lambda>s. if s = ''{}'' then Some s else None"
       and chunks = "[''{'', ''}'']"]
    response_normalizer_cases
    [where code = 404 and parse = "\<lambda>s. if s = ''{}'' then Some s else None"
       and chunks = "[''Not Found'']"]
  by (simp add: is_success_def)




text \<open>
  C5. The authorization mode is fixed per endpoint. \<open>requestToken\<close>, \<open>refreshToken\<close>,
  \<open>User.create\<close> and \<open>User.verifyEmail\<close> pass Basic, so the request carries
  \<open>"Basic " +\<close> the configured credentials; \<open>OAuth2.verify\<close>, \<open>User.retrieve\<close> and
  \<open>User.deactivateReusableSignatures\<close> pass Bearer with the caller's token, so the request
  carries \<open>"Bearer " +\<close> that token. Each call dispatches its one request; a call of
  \<open>User.create\<close> dispatches its creation request first and, with \<open>verifyEmail\<close> set, one
  \<open>verifyEmail\<close> request for every successful creation response, nothing else, and every
  one of these requests carries Basic.
\<close>

theorem authorization_mode_per_endpoint:
  "req_authorization (intent (requestToken_request data)) = Basic \<and>
   req_authorization (intent (refreshToken_request data)) = Basic \<and>
   req_authorization (intent (create_request p)) = Basic \<and>
   req_authorization (intent (verifyEmail_request e)) = Basic \<and>
   req_authorization (intent (verify_request token)) = Bearer token \<and>
   req_authorization (intent (retrieve_request token)) = Bearer token \<and>
   req_authorization (intent (deactivateReusableSignatures_request token)) = Bearer token \<and>
   authorization_sent cfg (requestToken_request data) = Some (HText (''Basic '' @ credentials cfg)) \<and>
   authorization_sent cfg (refreshToken_request data) = Some (HText (''Basic '' @ credentials cfg)) \<and>
   authorization_sent cfg (create_request p) = Some (HText (''Basic '' @ credentials cfg)) \<and>
   authorization_sent cfg (verifyEmail_request e) = Some (HText (''Basic '' @ credentials cfg)) \<and>
   authorization_sent cfg (verify_request token) = Some (HText (''Bearer '' @ token)) \<and>
   authorization_sent cfg (retrieve_request token) = Some (HText (''Bearer '' @ token)) \<and>
   authorization_sent cfg (deactivateReusableSignatures_request token) =
     Some (HText (''Bearer '' @ token)) \<and>
   sent (requestToken net parse data record_call idle) = [requestToken_request data] \<and>
   sent (refreshToken net parse data record_call idle) = [refreshToken_request data] \<and>
   sent (User_verifyEmail net parse e record_call idle) = [verifyEmail_request e] \<and>
   sent (verify net parse token record_call idle) = [verify_request token] \<and>
   sent (User_retrieve net parse token record_call idle) = [retrieve_request token] \<and>
   sent (User_deactivateReusableSignatures net parse token record_call idle) =
     [deactivateReusableSignatures_request token] \<and>
   sent (User_create net parse p record_call idle) =
     create_request p #
       (if verifyEmail (options p)
        then replicate
               (length (filter (\<lambda>a. fst a = None) (invocations parse (net (create_request p)))))
               (verifyEmail_request (email p))
        else []) \<and>
   list_all (\<lambda>d. authorization_sent cfg d = Some (HText (''Basic '' @ credentials cfg)))
     (sent (User_create net parse p record_call idle))"
proof -
  have exact: "sent (User_create net parse p record_call idle) =
     create_request p #
       (if verifyEmail (options p)
        then replicate
               (length (filter (\<lambda>a. fst a = None) (invocations parse (net (create_request p)))))
               (verifyEmail_request (email p))
        else [])"
    by (simp add: sent_User_create_exact idle_def)
  have one: "sent (requestToken net parse data record_call idle) = [requestToken_request data] \<and>
   sent (refreshToken net parse data record_call idle) = [refreshToken_request data] \<and>
   sent (User_verifyEmail net parse e record_call idle) = [verifyEmail_request e] \<and>
   sent (verify net parse token record_call idle) = [verify_request token] \<and>
   sent (User_retrieve net parse token record_call idle) = [retrieve_request token] \<and>
   sent (User_deactivateReusableSignatures net parse token record_call idle) =
     [deactivateReusableSignatures_request token]"
    by (simp add: requestToken_def refreshToken_def User_verifyEmail_def verify_def
        User_retrieve_def User_deactivateReusableSignatures_def https_request_record_call
        idle_def)
  have "list_all (\<lambda>d. authorization_sent cfg d = Some (HText (''Basic '' @ credentials cfg)))
     (sent (User_create net parse p record_call idle))"
    by (rule sent_User_create)
      (simp_all add: authorization_sent_def header_buildRequestOptions request_defs)
  moreover have "req_authorization (intent (requestToken_request data)) = Basic \<and>
   req_authorization (intent (refreshToken_request data)) = Basic \<and>
   req_authorization (intent (create_request p)) = Basic \<and>
   req_authorization (intent (verifyEmail_request e)) = Basic \<and>
   req_authorization (intent (verify_request token)) = Bearer token \<and>
   req_authorization (intent (retrieve_request token)) = Bearer token \<and>
   req_authorization (intent (deactivateReusableSignatures_request token)) = Bearer token"
    by (simp add: request_defs)
  moreover have
   "authorization_sent cfg (requestToken_request data) = Some (HText (''Basic '' @ credentials cfg)) \<and>
   authorization_sent cfg (refreshToken_request data) = Some (HText (''Basic '' @ credentials cfg)) \<and>
   authorization_sent cfg (create_request p) = Some (HText (''Basic '' @ credentials cfg)) \<and>
   authorization_sent cfg (verifyEmail_request e) = Some (HText (''Basic '' @ credentials cfg)) \<and>
   authorization_sent cfg (verify_request token) = Some (HText (''Bearer '' @ token)) \<and>
   authorization_sent cfg (retrieve_request token) = Some (HText (''Bearer '' @ token)) \<and>
   authorization_sent cfg (deactivateReusableSignatures_request token) =
     Some (HText (''Bearer '' @ token))"
    by (simp add: authorization_sent_def header_buildRequestOptions request_defs)
  ultimately show ?thesis using one exact by (simp only:)
qed

theorem authorization_mode_per_endpoint_witness:
  "authorization_sent
     \<lparr> credentials = ''aWQ6c2VjcmV0'', production = False,
       productionEndpoint = \<lparr> host = ''api.example'', basePath = ''/'' \<rparr>,
       sandboxEndpoint = \<lparr> host = ''sandbox.example'', basePath = ''/'' \<rparr> \<rparr>
     (requestToken_request [(''username'', QStr ''u''), (''password'', QStr ''p'')]) =
     Some (HText ''Basic aWQ6c2VjcmV0'') \<and>
   authorization_sent
     \<lparr> credentials = ''aWQ6c2VjcmV0'', production = False,
       productionEndpoint = \<lparr> host = ''api.example'', basePath = ''/'' \<rparr>,
       sandboxEndpoint = \<lparr> host = ''sandbox.example'', basePath = ''/'' \<rparr> \<rparr>
     (retrieve_request ''tok'') = Some (HText ''Bearer tok'') \<and>
   sent (User_create (\<lambda>d. [Response 200, Data ''{}'', End]) (\<lambda>s. Some s)
           \<lparr> email = Some ''a@b.c'', password = Some ''pw'', first_name = None,
             last_name = None, number = None,
             options = \<lparr> verifyEmail = True, startTrial = False \<rparr> \<rparr> record_call idle) =
     [create_request
        \<lparr> email = Some ''a@b.c'', password = Some ''pw'', first_name = None,
          last_name = None, number = None,
          options = \<lparr> verifyEmail = True, startTrial = False \<rparr> \<rparr>,
      verifyEmail_request (Some ''a@b.c'')] \<and>
   list_all (\<lambda>d. authorization_sent
        \<lparr> credentials = ''aWQ6c2VjcmV0'', production = False,
          productionEndpoint = \<lparr> host = ''api.example'', basePath = ''/'' \<rparr>,
          sandboxEndpoint = \<lparr> host = ''sandbox.example'', basePath = ''/'' \<rparr> \<rparr> d =
        Some (HText ''Basic aWQ6c2VjcmV0''))
     [create_request
        \<lparr> email = Some ''a@b.c'', password = Some ''pw'', first_name = None,
          last_name = None, number = None,
          options = \<lparr> verifyEmail = True, startTrial = False \<rparr> \<rparr>,
      verifyEmail_request (Some ''a@b.c'')]"
proof -
  let ?cfg = "\<lparr> credentials = ''aWQ6c2VjcmV0'', production = False,
       productionEndpoint = \<lparr> host = ''api.example'', basePath = ''/'' \<rparr>,
       sandboxEndpoint = \<lparr> host = ''sandbox.example'', basePath = ''/'' \<rparr> \<rparr>"
  let ?p = "\<lparr> email = Some ''a@b.c'', password = Some ''pw'', first_name = None,
             last_name = None, number = None,
             options = \<lparr> verifyEmail = True, startTrial = False \<rparr> \<rparr>"
  let ?net = "\<lambda>d :: dispatched. [Response 200, Data ''{}'', End]"
  note t = authorization_mode_per_endpoint
    [where cfg = ?cfg and data = "[(''username'', QStr ''u''), (''password'', QStr ''p'')]"
       and token = "''tok''" and e = None and net = ?net and parse = "\<lambda>s. Some s" and p = ?p]
  have i: "invocations (\<lambda>s. Some s) (?net (create_request ?p)) = [(None, Some ''{}'')]"
    by (simp add: invocations_def pending_def responseHandler_end_def is_success_def)
  from t have a: "authorization_sent ?cfg
       (requestToken_request [(''username'', QStr ''u''), (''password'', QStr ''p'')]) =
     Some (HText ''Basic aWQ6c2VjcmV0'')"
    by simp
  from t have b: "authorization_sent ?cfg (retrieve_request ''tok'') = Some (HText ''Bearer tok'')"
    by simp
  from t have "sent (User_create ?net (\<lambda>s. Some s) ?p record_call idle) =
     create_request ?p #
       (if verifyEmail (options ?p)
        then replicate
               (length (filter (\<lambda>a. fst a = None)
                  (invocations (\<lambda>s. Some s) (?net (create_request ?p)))))
               (verifyEmail_request (email ?p))
        else [])"
    by (elim conjE)
  then have c: "sent (User_create ?net (\<lambda>s. Some s) ?p record_call idle) =
     [create_request ?p, verifyEmail_request (Some ''a@b.c'')]"
    by (simp add: i)
  from t have "list_all (\<lambda>d. authorization_sent ?cfg d = Some (HText (''Basic '' @ credentials ?cfg)))
     (sent (User_create ?net (\<lambda>s. Some s) ?p record_call idle))"
    by (elim conjE)
  then have d: "list_all (\<lambda>d. authorization_sent ?cfg d = Some (HText ''Basic aWQ6c2VjcmV0''))
     [create_request ?p, verifyEmail_request (Some ''a@b.c'')]"
    by (simp only: c client_config.simps append.simps)
  from a b c d show ?thesis by (intro conjI)
qed

text \<open>
  C6. Every method that writes a body sets the content headers itself: the token requests
  carry \<open>Content-Type: application/x-www-form-urlencoded\<close>, the user requests with a body
  carry \<open>Content-Type: application/json\<close>, and in each \<open>Content-Length\<close> is the number of
  bytes of the body that is written. The builder passes \<open>Content-Type\<close> and \<open>Content-Length\<close>
  through as the caller gave them and sets neither.
\<close>

theorem content_headers_set_by_caller:
  "written (requestToken_request data) = Some (dataStringified (requestToken_dataCopy data)) \<and>
   carries_body cfg (requestToken_request data) ''application/x-www-form-urlencoded'' \<and>
   written (refreshToken_request data) = Some (dataStringified (refreshToken_dataCopy data)) \<and>
   carries_body cfg (refreshToken_request data) ''application/x-www-form-urlencoded'' \<and>
   written (create_request p) = Some (create_JSONData p) \<and>
   carries_body cfg (create_request p) ''application/json'' \<and>
   written (verifyEmail_request e) = Some (JSON_stringify [(''email'', map_option JString e)]) \<and>
   carries_body cfg (verifyEmail_request e) ''application/json'' \<and>
   written (deactivateReusableSignatures_request token) =
     Some (JSON_stringify [(''active'', Some (JNumber 1))]) \<and>
   carries_body cfg (deactivateReusableSignatures_request token) ''application/json'' \<and>
   header (buildRequestOptions cfg i) ''Content-Type'' = get_prop (req_headers i) ''Content-Type'' \<and>
   header (buildRequestOptions cfg i) ''Content-Length'' =
     get_prop (req_headers i) ''Content-Length''"
  by (simp add: carries_body_def header_buildRequestOptions request_defs get_prop_def
      byteLength_def split: option.splits)

theorem content_headers_set_by_caller_witness:
  "carries_body
     \<lparr> credentials = ''aWQ6c2VjcmV0'', production = False,
       productionEndpoint = \<lparr> host = ''api.example'', basePath = ''/'' \<rparr>,
       sandboxEndpoint = \<lparr> host = ''sandbox.example'', basePath = ''/'' \<rparr> \<rparr>
     (deactivateReusableSignatures_request ''tok'') ''application/json'' \<and>
   deactivateReusableSignatures_request ''tok'' =
     \<lparr> intent = \<lparr> req_method = PUT, req_path = ''/user/setting/no_user_signature_return'',
         req_authorization = Bearer ''tok'',
         req_headers = [(''Content-Type'', HText ''application/json''),
                        (''Content-Length'', HNumber 12)] \<rparr>,
       written = Some [CHR ''{'', CHR 0x22, CHR ''a'', CHR ''c'', CHR ''t'', CHR ''i'', CHR ''v'',
                       CHR ''e'', CHR 0x22, CHR '':'', CHR ''1'', CHR ''}''] \<rparr> \<and>
   verifyEmail_request None =
     \<lparr> intent = \<lparr> req_method = POST, req_path = ''/user/verifyemail'',
         req_authorization = Basic,
         req_headers = [(''Content-Type'', HText ''application/json''),
                        (''Content-Length'', HNumber 2)] \<rparr>,
       written = Some ''{}'' \<rparr>"
proof -
  have "carries_body
     \<lparr> credentials = ''aWQ6c2VjcmV0'', production = False,
       productionEndpoint = \<lparr> host = ''api.example'', basePath = ''/'' \<rparr>,
       sandboxEndpoint = \<lparr> host = ''sandbox.example'', basePath = ''/'' \<rparr> \<rparr>
     (deactivateReusableSignatures_request ''tok'') ''application/json''"
    using content_headers_set_by_caller
      [where token = "''tok''" and e = None and data = "[]"
         and i = "intent (verify_request ''tok'')"
         and cfg = "\<lparr> credentials = ''aWQ6c2VjcmV0'', production = False,
           productionEndpoint = \<lparr> host = ''api.example'', basePath = ''/'' \<rparr>,
           sandboxEndpoint = \<lparr> host = ''sandbox.example'', basePath = ''/'' \<rparr> \<rparr>"
         and p = "\<lparr> email = None, password = None, first_name = None, last_name = None,
           number = None, options = \<lparr> verifyEmail = False, startTrial = False \<rparr> \<rparr>"]
    by (elim conjE)
  moreover have "deactivateReusableSignatures_request ''tok'' =
     \<lparr> intent = \<lparr> req_method = PUT, req_path = ''/user/setting/no_user_signature_return'',
         req_authorization = Bearer ''tok'',
         req_headers = [(''Content-Type'', HText ''application/json''),
                        (''Content-Length'', HNumber 12)] \<rparr>,
       written = Some [CHR ''{'', CHR 0x22, CHR ''a'', CHR ''c'', CHR ''t'', CHR ''i'', CHR ''v'',
                       CHR ''e'', CHR 0x22, CHR '':'', CHR ''1'', CHR ''}''] \<rparr>"
    by (simp add: deactivateReusableSignatures_request_def json_request_def JSON_stringify_def
        JSON_member_def JSON_string_def json_escape_byte_def show_nat.simps digit_char_def byteLength_def)
  moreover have "verifyEmail_request None =
     \<lparr> intent = \<lparr> req_method = POST, req_path = ''/user/verifyemail'',
         req_authorization = Basic,
         req_headers = [(''Content-Type'', HText ''application/json''),
                        (''Content-Length'', HNumber 2)] \<rparr>,
       written = Some ''{}'' \<rparr>"
    by (simp add: verifyEmail_request_def json_request_def JSON_stringify_def
        JSON_member_def byteLength_def)
  ultimately show ?thesis by (intro conjI)
qed

text \<open>
  C7. The command line: the arguments that begin with \<open>--\<close> are the flags, the others, in
  order, are \<open>client_id\<close>, \<open>client_secret\<close>, \<open>username\<close>, \<open>password\<close> and \<open>document_id\<close> (a
  missing one is \<open>undefined\<close>); the client is configured with the base64 of
  \<open>client_id:client_secret\<close> as credentials, and with \<open>production\<close> true exactly when no
  argument is \<open>--dev\<close>.
\<close>

theorem cli_argument_parsing:
  "flags args = filter (prefix ''--'') args \<and>
   params args = filter (\<lambda>arg. \<not> prefix ''--'' arg) args \<and>
   clientId (parse_args args) = element (params args) 0 \<and>
   clientSecret (parse_args args) = element (params args) 1 \<and>
   username (parse_args args) = element (params args) 2 \<and>
   cli_password (parse_args args) = element (params args) 3 \<and>
   documentId (parse_args args) = element (params args) 4 \<and>
   (params args = client_id # client_secret # user # pass # document_id # rest \<longrightarrow>
      clientId (parse_args args) = Some client_id \<and>
      clientSecret (parse_args args) = Some client_secret \<and>
      username (parse_args args) = Some user \<and>
      cli_password (parse_args args) = Some pass \<and>
      documentId (parse_args args) = Some document_id \<and>
      set_credentials (cli_settings args) = base64 (client_id @ '':'' @ client_secret)) \<and>
   set_credentials (cli_settings args) =
     base64 (template (clientId (parse_args args)) @ '':'' @
             template (clientSecret (parse_args args))) \<and>
   set_production (cli_settings args) = (''--dev'' \<notin> set args)"
proof -
  have dev: "(''--dev'' \<in> set (flags args)) = (''--dev'' \<in> set args)"
    by (auto simp: flags_def is_flag_def)
  have five: "params args = client_id # client_secret # user # pass # document_id # rest \<Longrightarrow>
      clientId (parse_args args) = Some client_id \<and>
      clientSecret (parse_args args) = Some client_secret \<and>
      username (parse_args args) = Some user \<and>
      cli_password (parse_args args) = Some pass \<and>
      documentId (parse_args args) = Some document_id \<and>
      set_credentials (cli_settings args) = base64 (client_id @ '':'' @ client_secret)"
    by (simp add: parse_args_def cli_settings_def element_def template_def)
  have rest: "flags args = filter (prefix ''--'') args \<and>
   params args = filter (\<lambda>arg. \<not> prefix ''--'' arg) args \<and>
   clientId (parse_args args) = element (params args) 0 \<and>
   clientSecret (parse_args args) = element (params args) 1 \<and>
   username (parse_args args) = element (params args) 2 \<and>
   cli_password (parse_args args) = element (params args) 3 \<and>
   documentId (parse_args args) = element (params args) 4 \<and>
   set_credentials (cli_settings args) =
     base64 (template (clientId (parse_args args)) @ '':'' @
             template (clientSecret (parse_args args)))"
    by (simp add: flags_def params_def is_flag_def parse_args_def cli_settings_def Let_def
        cong: filter_cong)
  have prod: "set_production (cli_settings args) = (''--dev'' \<notin> set args)"
    using dev by (simp add: cli_settings_def parse_args_def Let_def)
  from five rest prod show ?thesis by blast
qed

theorem cli_argument_parsing_witness:
  "params [''id'', ''--dev'', ''secret'', ''u@x.com'', ''p'', ''doc1'', ''--cancel-invites''] =
     [''id'', ''secret'', ''u@x.com'', ''p'', ''doc1''] \<and>
   flags [''id'', ''--dev'', ''secret'', ''u@x.com'', ''p'', ''doc1'', ''--cancel-invites''] =
     [''--dev'', ''--cancel-invites''] \<and>
   documentId (parse_args
     [''id'', ''--dev'', ''secret'', ''u@x.com'', ''p'', ''doc1'', ''--cancel-invites'']) =
     Some ''doc1'' \<and>
   set_credentials (cli_settings
     [''id'', ''--dev'', ''secret'', ''u@x.com'', ''p'', ''doc1'', ''--cancel-invites'']) =
     ''aWQ6c2VjcmV0'' \<and>
   set_production (cli_settings
     [''id'', ''--dev'', ''secret'', ''u@x.com'', ''p'', ''doc1'', ''--cancel-invites'']) = False"
proof -
  let ?args = "[''id'', ''--dev'', ''secret'', ''u@x.com'', ''p'', ''doc1'', ''--cancel-invites'']"
  note t = cli_argument_parsing
    [where args = ?args and client_id = "''id''" and client_secret = "''secret''"
       and user = "''u@x.com''" and pass = "''p''" and document_id = "''doc1''" and rest = "[]"]
  have p: "params ?args = [''id'', ''secret'', ''u@x.com'', ''p'', ''doc1'']"
    by (simp add: params_def is_flag_def)
  have f: "flags ?args = [''--dev'', ''--cancel-invites'']"
    by (simp add: flags_def is_flag_def)
  have b: "base64 (''id'' @ '':'' @ ''secret'') = ''aWQ6c2VjcmV0''"
    by (simp add: b64_char_def)
  from t p have "documentId (parse_args ?args) = Some ''doc1''"
    and "set_credentials (cli_settings ?args) = base64 (''id'' @ '':'' @ ''secret'')"
    by blast+
  moreover from t have "set_production (cli_settings ?args) = (''--dev'' \<notin> set ?args)"
    by blast
  ultimately show ?thesis using p f b by simp
qed

text \<open>
  C8. Grant-type precedence: in \<open>requestToken\<close> the payload's own \<open>grant_type\<close>, when it has
  one, replaces the default \<open>password\<close>; in \<open>refreshToken\<close> the grant type is always
  \<open>refresh_token\<close>, whatever the payload says. In both, the entries that are serialized
  hold exactly one \<open>grant_type\<close>, with that value.
\<close>

theorem grant_type_precedence:
  "get_prop (requestToken_dataCopy data) ''grant_type'' =
     (case get_prop (object_assign [] data) ''grant_type'' of
        None \<Rightarrow> Some (QStr ''password'')
      | Some g \<Rightarrow> Some g) \<and>
   get_prop (refreshToken_dataCopy data) ''grant_type'' = Some (QStr ''refresh_token'') \<and>
   filter (\<lambda>kv. fst kv = ''grant_type'') (own_entries (requestToken_dataCopy data)) =
     [(''grant_type'', case get_prop (object_assign [] data) ''grant_type'' of
                          None \<Rightarrow> QStr ''password''
                        | Some g \<Rightarrow> g)] \<and>
   filter (\<lambda>kv. fst kv = ''grant_type'') (own_entries (refreshToken_dataCopy data)) =
     [(''grant_type'', QStr ''refresh_token'')] \<and>
   written (requestToken_request data) =
     Some (replace_first ''%40'' ''@''
       (intercalate ''&'' (map qs_field (own_entries (requestToken_dataCopy data))))) \<and>
   written (refreshToken_request data) =
     Some (replace_first ''%40'' ''@''
       (intercalate ''&'' (map qs_field (own_entries (refreshToken_dataCopy data)))))"
proof -
  let ?g = "get_prop (object_assign [] data) ''grant_type''"
  have e: "written (requestToken_request data) =
     Some (replace_first ''%40'' ''@''
       (intercalate ''&'' (map qs_field (own_entries (requestToken_dataCopy data))))) \<and>
   written (refreshToken_request data) =
     Some (replace_first ''%40'' ''@''
       (intercalate ''&'' (map qs_field (own_entries (refreshToken_dataCopy data)))))"
    by (simp add: requestToken_request_def refreshToken_request_def token_request_def
        dataStringified_def qs_stringify_def)
  have a: "get_prop (requestToken_dataCopy data) ''grant_type'' =
     (case ?g of None \<Rightarrow> Some (QStr ''password'') | Some g \<Rightarrow> Some g)"
    by (simp add: requestToken_dataCopy_def get_prop_object_assign get_prop_Nil get_prop_Cons
        split: option.splits)
  have b: "get_prop (refreshToken_dataCopy data) ''grant_type'' = Some (QStr ''refresh_token'')"
    by (simp add: refreshToken_dataCopy_def get_prop_object_assign get_prop_Nil get_prop_Cons)
  have da: "distinct (map fst (requestToken_dataCopy data))"
    by (simp add: requestToken_dataCopy_def distinct_object_assign)
  have db: "distinct (map fst (refreshToken_dataCopy data))"
    by (simp add: refreshToken_dataCopy_def distinct_object_assign)
  have a': "map_of (requestToken_dataCopy data) ''grant_type'' =
     Some (case ?g of None \<Rightarrow> QStr ''password'' | Some g \<Rightarrow> g)"
    using a by (simp add: get_prop_def split: option.splits)
  have c: "filter (\<lambda>kv. fst kv = ''grant_type'') (own_entries (requestToken_dataCopy data)) =
     [(''grant_type'', case ?g of None \<Rightarrow> QStr ''password'' | Some g \<Rightarrow> g)]"
    using filter_key_distinct [OF da a']
    by (simp only: filter_key_own_entries [OF grant_type_not_index])
  have d: "filter (\<lambda>kv. fst kv = ''grant_type'') (own_entries (refreshToken_dataCopy data)) =
     [(''grant_type'', QStr ''refresh_token'')]"
    using filter_key_distinct [OF db b [unfolded get_prop_def]]
    by (simp only: filter_key_own_entries [OF grant_type_not_index])
  from a b c d e show ?thesis by blast
qed

theorem grant_type_precedence_witness:
  "written (requestToken_request [(''grant_type'', QStr ''authorization_code''), (''code'', QStr ''c1'')])
     = Some ''grant_type=authorization_code&code=c1'' \<and>
   written (requestToken_request [(''username'', QStr ''u''), (''password'', QStr ''p'')])
     = Some ''grant_type=password&username=u&password=p'' \<and>
   written (refreshToken_request [(''grant_type'', QStr ''password''), (''refresh_token'', QStr ''r1'')])
     = Some ''grant_type=refresh_token&refresh_token=r1'' \<and>
   get_prop (requestToken_dataCopy [(''grant_type'', QStr ''authorization_code''), (''code'', QStr ''c1'')])
     ''grant_type'' = Some (QStr ''authorization_code'') \<and>
   get_prop (refreshToken_dataCopy [(''grant_type'', QStr ''password''), (''refresh_token'', QStr ''r1'')])
     ''grant_type'' = Some (QStr ''refresh_token'')"
  using grant_type_precedence
    [of "[(''grant_type'', QStr ''authorization_code''), (''code'', QStr ''c1'')]"]
    grant_type_precedence
    [of "[(''grant_type'', QStr ''password''), (''refresh_token'', QStr ''r1'')]"]
  by (simp add: qs_eval get_prop_def)

text \<open>
  C9. In \<open>requestToken\<close> and \<open>refreshToken\<close> only the first \<open>%40\<close> of the encoded payload is
  turned back into \<open>@\<close>: when the encoding holds \<open>%40\<close> two or more times, the body that is
  written is the encoding with its first \<open>%40\<close> replaced, everything after it is unchanged
  and still holds all the later occurrences, so the body has one \<open>%40\<close> less than the
  encoding and at least one.
\<close>

theorem only_first_at_sign_restored:
  "(2 \<le> occurrences ''%40'' (qs_stringify dataCopy) \<longrightarrow>
      (\<exists>pre rest.
         qs_stringify dataCopy = pre @ ''%40'' @ rest \<and>
         occurrences ''%40'' pre = 0 \<and>
         dataStringified dataCopy = pre @ ''@'' @ rest \<and>
         occurrences ''%40'' rest = occurrences ''%40'' (qs_stringify dataCopy) - 1) \<and>
      occurrences ''%40'' (dataStringified dataCopy) =
        occurrences ''%40'' (qs_stringify dataCopy) - 1 \<and>
      1 \<le> occurrences ''%40'' (dataStringified dataCopy)) \<and>
   written (requestToken_request data) = Some (dataStringified (requestToken_dataCopy data)) \<and>
   written (refreshToken_request data) = Some (dataStringified (refreshToken_dataCopy data))"
proof -
  let ?enc = "qs_stringify dataCopy"
  have w: "written (requestToken_request data) = Some (dataStringified (requestToken_dataCopy data)) \<and>
     written (refreshToken_request data) = Some (dataStringified (refreshToken_dataCopy data))"
    by (simp add: requestToken_request_def refreshToken_request_def token_request_def)
  have n: "occurrences ''%40'' (dataStringified dataCopy) = occurrences ''%40'' ?enc - 1"
    by (simp only: dataStringified_def occurrences_replace_first)
  have s: "\<exists>pre rest. ?enc = pre @ ''%40'' @ rest \<and> occurrences ''%40'' pre = 0 \<and>
         dataStringified dataCopy = pre @ ''@'' @ rest \<and>
         occurrences ''%40'' rest = occurrences ''%40'' ?enc - 1"
    if two: "2 \<le> occurrences ''%40'' ?enc"
  proof -
    from two have "0 < occurrences ''%40'' ?enc" by simp
    then obtain pre rest where
      e: "?enc = pre @ ''%40'' @ rest" and z: "occurrences ''%40'' pre = 0" and
      r: "replace_first ''%40'' ''@'' ?enc = pre @ ''@'' @ rest" and
      c: "occurrences ''%40'' ?enc = occurrences ''%40'' (''%40'' @ rest)"
      using replace_first_split [of "''%40''" ?enc "''@''"] by auto
    from c have "occurrences ''%40'' rest = occurrences ''%40'' ?enc - 1"
      by (simp only: occurrences_after_first diff_Suc_1)
    with e z r show ?thesis by (auto simp only: dataStringified_def)
  qed
  from s n w show ?thesis by auto
qed

theorem only_first_at_sign_restored_witness:
  "occurrences ''%40''
     (qs_stringify (requestToken_dataCopy
        [(''username'', QStr ''u@x.com''), (''password'', QStr ''p@ss'')])) = 2 \<and>
   qs_stringify (requestToken_dataCopy
        [(''username'', QStr ''u@x.com''), (''password'', QStr ''p@ss'')]) =
     ''grant_type=password&username=u%40x.com&password=p%40ss'' \<and>
   written (requestToken_request [(''username'', QStr ''u@x.com''), (''password'', QStr ''p@ss'')]) =
     Some ''grant_type=password&username=u@x.com&password=p%40ss'' \<and>
   written (refreshToken_request [(''refresh_token'', QStr ''r@1''), (''scope'', QStr ''a@b'')]) =
     Some ''refresh_token=r@1&scope=a%40b&grant_type=refresh_token''"
  using only_first_at_sign_restored
    [of "requestToken_dataCopy [(''username'', QStr ''u@x.com''), (''password'', QStr ''p@ss'')]"
        "[(''username'', QStr ''u@x.com''), (''password'', QStr ''p@ss'')]"]
  by (simp add: qs_eval)

text \<open>
  C10. \<open>User.create\<close> with \<open>verifyEmail\<close> set: if the creation request fails, the original
  callback gets the creation error and no verification request is dispatched; if creation
  succeeds and the verification request fails, it gets the verification error and no
  creation response; if both succeed, it gets \<open>(null, creation response)\<close>, never the
  verification response. When both requests follow the single-shot life cycle the original
  callback is invoked exactly once.
\<close>

theorem create_with_email_verification:
  assumes v: "verifyEmail (options p)"
  shows
  "(invocations parse (net (create_request p)) = [(Some createErr, r)] \<longrightarrow>
      User_create net parse p record_call w =
        \<lparr> sent = sent w @ [create_request p], called = called w @ [(Some createErr, None)] \<rparr>) \<and>
   (invocations parse (net (create_request p)) = [(None, createRes)] \<and>
    invocations parse (net (verifyEmail_request (email p))) = [(Some verifyErr, r')] \<longrightarrow>
      User_create net parse p record_call w =
        \<lparr> sent = sent w @ [create_request p, verifyEmail_request (email p)],
          called = called w @ [(Some verifyErr, None)] \<rparr>) \<and>
   (invocations parse (net (create_request p)) = [(None, createRes)] \<and>
    invocations parse (net (verifyEmail_request (email p))) = [(None, verifyRes)] \<longrightarrow>
      User_create net parse p record_call w =
        \<lparr> sent = sent w @ [create_request p, verifyEmail_request (email p)],
          called = called w @ [(None, createRes)] \<rparr>) \<and>
   (single_shot (net (create_request p)) \<and> single_shot (net (verifyEmail_request (email p))) \<longrightarrow>
      (\<exists>a. called (User_create net parse p record_call w) = called w @ [a]))"
proof (intro conjI impI)
  assume "invocations parse (net (create_request p)) = [(Some createErr, r)]"
  then show "User_create net parse p record_call w =
        \<lparr> sent = sent w @ [create_request p], called = called w @ [(Some createErr, None)] \<rparr>"
    by (simp add: User_create_verifying [OF v])
next
  assume "invocations parse (net (create_request p)) = [(None, createRes)] \<and>
    invocations parse (net (verifyEmail_request (email p))) = [(Some verifyErr, r')]"
  then show "User_create net parse p record_call w =
        \<lparr> sent = sent w @ [create_request p, verifyEmail_request (email p)],
          called = called w @ [(Some verifyErr, None)] \<rparr>"
    by (simp add: User_create_verifying [OF v])
next
  assume "invocations parse (net (create_request p)) = [(None, createRes)] \<and>
    invocations parse (net (verifyEmail_request (email p))) = [(None, verifyRes)]"
  then show "User_create net parse p record_call w =
        \<lparr> sent = sent w @ [create_request p, verifyEmail_request (email p)],
          called = called w @ [(None, createRes)] \<rparr>"
    by (simp add: User_create_verifying [OF v])
next
  assume "single_shot (net (create_request p)) \<and> single_shot (net (verifyEmail_request (email p)))"
  then obtain a b where a: "invocations parse (net (create_request p)) = [a]"
    and b: "invocations parse (net (verifyEmail_request (email p))) = [b]"
    using single_shot_invocations by blast
  obtain ce cr where "a = (ce, cr)" by (cases a)
  with a b show "\<exists>a. called (User_create net parse p record_call w) = called w @ [a]"
    by (cases ce; cases b) (auto simp: User_create_verifying [OF v] split: option.splits)
qed

theorem create_with_email_verification_witness:
  "User_create
     (\<lambda>d. if req_path (intent d) = ''/user'' then [Response 200, Data ''{'', Data ''}'', End]
          else [Response 500, Data ''down'', End])
     (\<lambda>s. if s = ''{}'' then Some s else None)
     \<lparr> email = Some ''a@b.c'', password = Some ''pw'', first_name = None, last_name = None,
       number = None, options = \<lparr> verifyEmail = True, startTrial = False \<rparr> \<rparr>
     record_call idle =
   \<lparr> sent = [create_request
        \<lparr> email = Some ''a@b.c'', password = Some ''pw'', first_name = None, last_name = None,
          number = None, options = \<lparr> verifyEmail = True, startTrial = False \<rparr> \<rparr>,
             verifyEmail_request (Some ''a@b.c'')],
     called = [(Some \<lparr> kind = HttpError, statusCode = Some 500, message = RawText ''down'' \<rparr>,
                None)] \<rparr>"
proof -
  let ?net = "\<lambda>d. if req_path (intent d) = ''/user'' then [Response 200, Data ''{'', Data ''}'', End]
          else [Response 500, Data ''down'', End]"
  let ?parse = "\<lambda>s. if s = ''{}'' then Some s else None"
  let ?p = "\<lparr> email = Some ''a@b.c'', password = Some ''pw'', first_name = None, last_name = None,
       number = None, options = \<lparr> verifyEmail = True, startTrial = False \<rparr> \<rparr>"
  have v: "verifyEmail (options ?p)" by simp
  have c: "invocations ?parse (?net (create_request ?p)) = [(None, Some ''{}'')]"
    by (simp add: create_request_def json_request_def invocations_def pending_def
        responseHandler_end_def is_success_def)
  have e: "invocations ?parse (?net (verifyEmail_request (email ?p))) =
      [(Some \<lparr> kind = HttpError, statusCode = Some 500, message = RawText ''down'' \<rparr>, None)]"
    by (simp add: verifyEmail_request_def json_request_def invocations_def pending_def
        responseHandler_end_def is_success_def)
  from create_with_email_verification [OF v, where net = ?net and parse = ?parse and w = idle]
    c e show ?thesis
    by (simp add: idle_def)
qed

end
